theory Spec2Isabelle
  imports Main "HOL-Library.Char_ord" "HOL-Library.List_Lexorder"
begin

section \<open>Data model\<close>

text \<open>
  Go strings and byte slices are sequences of bytes; an Isabelle \<open>char\<close> is one byte, so
  both are \<open>char list\<close>.
\<close>

type_synonym bytes = string

text \<open>
  The error values that travel through the package. They are values of Go's standard
  library; only their identity matters here.
\<close>

datatype error =
    EOF
  | Canceled
  | DeadlineExceeded
  | ErrClosed
  | ErrBodyReadAfterClose
  | UnmarshalTypeError string
  | OtherError string

subsection \<open>url.Values\<close>

text \<open>
  \<open>url.Values\<close> is \<open>map[string][]string\<close>. It is modelled as an association list
  whose keys are distinct; the order of the entries stands for the order in which a
  \<open>range\<close> over the map happens to visit them, which Go leaves unspecified.
\<close>

type_synonym Values = "(string \<times> string list) list"

text \<open>\<open>v.Add(key, value)\<close>: \<open>v[key] = append(v[key], value)\<close>.\<close>

fun Values_Add :: "Values \<Rightarrow> string \<Rightarrow> string \<Rightarrow> Values" where
  "Values_Add [] key val = [(key, [val])]"
| "Values_Add ((k, vs) # rest) key val =
     (if k = key then (k, vs @ [val]) # rest else (k, vs) # Values_Add rest key val)"

text \<open>\<open>v.Get(key)\<close>: the first value of the key, or the empty string.\<close>

definition Values_Get :: "Values \<Rightarrow> string \<Rightarrow> string" where
  "Values_Get v key =
     (case map_of v key of None \<Rightarrow> [] | Some [] \<Rightarrow> [] | Some (x # _) \<Rightarrow> x)"

subsection \<open>Structured values\<close>

text \<open>
  What \<open>encoding/json\<close> decodes into an \<open>interface{}\<close> when \<open>UseNumber\<close> is set:
  \<open>nil\<close>, \<open>bool\<close>, \<open>json.Number\<close> (the literal's text), \<open>string\<close>,
  \<open>[]interface{}\<close> and \<open>map[string]interface{}\<close>. A map is listed in the order a
  \<open>range\<close> visits it.
\<close>

datatype jvalue =
    JNull
  | JBool bool
  | JNumber string
  | JString string
  | JArray "jvalue list"
  | JObject "(string \<times> jvalue) list"

text \<open>
  The argument \<open>data interface{}\<close> of \<open>toValues\<close>, seen through the two things the
  function does with it: compare it with \<open>nil\<close> and hand it to \<open>json.Marshal\<close>.
  \<open>Marshals j\<close> is a value whose JSON text reads back as the tree \<open>j\<close>;
  \<open>MarshalFails e\<close> is a value \<open>json.Marshal\<close> rejects with \<open>e\<close> (a channel, a
  function, a cyclic structure).
\<close>

datatype data = Nil | Marshals jvalue | MarshalFails error

subsection \<open>url.URL\<close>

text \<open>
  The fields of \<open>url.URL\<close> that \<open>resolveURL\<close> reads and writes. \<open>Front\<close> is what
  \<open>u.String()\<close> writes ahead of the query (scheme, authority and escaped path) and
  \<open>EscapedFragment\<close> what it writes behind \<open>#\<close>; the package never looks inside
  either.
\<close>

record URL =
  Front :: string
  ForceQuery :: bool
  RawQuery :: string
  EscapedFragment :: string

text \<open>
  \<open>u.String()\<close>: the front, then \<open>?\<close> and the raw query when \<open>ForceQuery\<close> is set or
  the raw query is not empty, then \<open>#\<close> and the fragment when there is one.
\<close>

definition URL_String :: "URL \<Rightarrow> string" where
  "URL_String u =
     Front u
     @ (if ForceQuery u \<or> RawQuery u \<noteq> [] then ''?'' @ RawQuery u else [])
     @ (if EscapedFragment u \<noteq> [] then ''#'' @ EscapedFragment u else [])"

subsection \<open>Query encoding\<close>

text \<open>
  \<open>url.QueryEscape\<close>: letters, digits and \<open>- _ . ~\<close> stay, a space becomes \<open>+\<close>,
  every other byte becomes \<open>%\<close> and two upper-case hexadecimal digits.
\<close>

definition unreserved :: "char \<Rightarrow> bool" where
  "unreserved c =
     (let n = (of_char c :: nat)
      in (97 \<le> n \<and> n \<le> 122) \<or> (65 \<le> n \<and> n \<le> 90) \<or> (48 \<le> n \<and> n \<le> 57)
         \<or> c = CHR ''-'' \<or> c = CHR ''_'' \<or> c = CHR ''.'' \<or> c = CHR ''~'')"

definition upperhex :: "nat \<Rightarrow> char" where
  "upperhex n = ''0123456789ABCDEF'' ! n"

definition escape_byte :: "char \<Rightarrow> string" where
  "escape_byte c =
     (if unreserved c then [c]
      else if c = CHR '' '' then ''+''
      else [CHR ''%'', upperhex ((of_char c :: nat) div 16), upperhex ((of_char c :: nat) mod 16)])"

definition QueryEscape :: "string \<Rightarrow> string" where
  "QueryEscape s = concat (map escape_byte s)"

fun join_amp :: "string list \<Rightarrow> string" where
  "join_amp [] = []"
| "join_amp [x] = x"
| "join_amp (x # y # rest) = x @ ''&'' @ join_amp (y # rest)"

text \<open>
  \<open>v.Encode()\<close>: the keys in sorted order (Go compares strings byte by byte), under
  each key its values in their order, every pair written \<open>key=value\<close> with both sides
  escaped, the pairs joined by \<open>&\<close>.
\<close>

definition Encode_key :: "Values \<Rightarrow> string \<Rightarrow> string list" where
  "Encode_key v k =
     map (\<lambda>x. QueryEscape k @ ''='' @ QueryEscape x)
       (case map_of v k of None \<Rightarrow> [] | Some vs \<Rightarrow> vs)"

definition Values_Encode :: "Values \<Rightarrow> string" where
  "Values_Encode v = join_amp (concat (map (Encode_key v) (sort (map fst v))))"

subsection \<open>Requests, responses, contexts and the client\<close>

text \<open>
  The package's own \<open>Header\<close> is \<open>map[string]string\<close>; the list is in \<open>range\<close> order,
  and a \<open>nil\<close> header is the empty list (the code ranges over it or skips it).
\<close>

type_synonym Header = "(string \<times> string) list"

text \<open>
  One part of a multipart body: \<open>CreateFormField(key)\<close> or
  \<open>CreateFormFile(key, filename)\<close>, with the bytes copied into it.
\<close>

datatype part = FormField string bytes | FormFile string string bytes

datatype payload = NoBody | FormBody bytes | MultipartBody "part list"

text \<open>
  An \<open>*http.Request\<close> as the package builds it. \<open>HeaderSets\<close> lists the calls
  \<open>req.Header.Set(k, v)\<close> in the order they are made on the fresh request.
\<close>

record Request =
  Method :: string
  Target :: string
  Payload :: payload
  HeaderSets :: "(string \<times> string) list"

text \<open>
  A response body: the bytes the stream delivers when it is read to its end, the error
  that ends it (\<open>None\<close> for a plain end of stream), and whether \<open>Close\<close> has been called.
\<close>

record Body =
  content :: bytes
  fault :: "error option"
  closed :: bool

record Response =
  RespHeader :: "(string \<times> string list) list"
  RespBody :: Body

text \<open>\<open>h.Get(key)\<close> on an \<open>http.Header\<close>: the first value of the key, or the empty string.\<close>

definition Header_Get :: "(string \<times> string list) list \<Rightarrow> string \<Rightarrow> string" where
  "Header_Get h key =
     (case map_of h key of None \<Rightarrow> [] | Some [] \<Rightarrow> [] | Some (x # _) \<Rightarrow> x)"

text \<open>
  A context over logical time: \<open>done_from = Some (t, e)\<close> says that \<open>ctx.Done()\<close> is
  closed from the moment \<open>t\<close> on and that \<open>ctx.Err()\<close> is \<open>e\<close> from then on
  (\<open>Canceled\<close> or \<open>DeadlineExceeded\<close>); \<open>None\<close> is a context that is never done.
\<close>

record Context =
  done_from :: "(nat \<times> error) option"

definition ctx_Err :: "Context \<Rightarrow> nat \<Rightarrow> error option" where
  "ctx_Err ctx t =
     (case done_from ctx of
        None \<Rightarrow> None
      | Some (t0, e) \<Rightarrow> if t0 \<le> t then Some e else None)"

text \<open>
  \<open>c.Client.Do\<close>, the transport: called at a moment with a request that carries the
  context, it returns a response or an error, and the time the call took.
\<close>

type_synonym transport = "Context \<Rightarrow> nat \<Rightarrow> Request \<Rightarrow> (error + Response) \<times> nat"

record XClient =
  Client :: transport
  BaseHeader :: Header
  BaseQuery :: Values

section \<open>toValues and addValues\<close>

text \<open>
  \<open>d.Decode(&result)\<close> with \<open>result\<close> a \<open>map[string]interface{}\<close>: a JSON object
  fills the map, \<open>null\<close> leaves it without entries, and every other JSON value is an
  \<open>*json.UnmarshalTypeError\<close> naming the kind of the JSON value.
\<close>

fun Decode_map :: "jvalue \<Rightarrow> error + (string \<times> jvalue) list" where
  "Decode_map (JObject kvs) = Inr kvs"
| "Decode_map JNull = Inr []"
| "Decode_map (JBool b) = Inl (UnmarshalTypeError ''bool'')"
| "Decode_map (JNumber n) = Inl (UnmarshalTypeError ''number'')"
| "Decode_map (JString s) = Inl (UnmarshalTypeError ''string'')"
| "Decode_map (JArray xs) = Inl (UnmarshalTypeError ''array'')"

text \<open>
  \<open>addValues\<close>, with its two loops as functions of their own. The parameter \<open>sprintf\<close>
  is \<open>fmt.Sprintf\<close> applied to a format and one string operand
  (\<open>fmt.Sprintf(k, mapKey)\<close>). The \<open>default\<close> branch is \<open>fmt.Sprintf("%v", v)\<close> on the
  four dynamic types left: \<open>nil\<close> prints as \<open><nil>\<close>, a \<open>bool\<close> as \<open>true\<close> or
  \<open>false\<close>, a \<open>json.Number\<close> and a \<open>string\<close> as their text.
\<close>

fun addValues :: "(string \<Rightarrow> string \<Rightarrow> string) \<Rightarrow> Values \<Rightarrow> string \<Rightarrow> jvalue \<Rightarrow> Values"
and addValues_slice :: "(string \<Rightarrow> string \<Rightarrow> string) \<Rightarrow> Values \<Rightarrow> string \<Rightarrow> jvalue list \<Rightarrow> Values"
and addValues_map :: "(string \<Rightarrow> string \<Rightarrow> string) \<Rightarrow> Values \<Rightarrow> string \<Rightarrow> (string \<times> jvalue) list \<Rightarrow> Values"
where
  "addValues sprintf values k (JArray as) = addValues_slice sprintf values k as"
| "addValues sprintf values k (JObject as) = addValues_map sprintf values k as"
| "addValues sprintf values k JNull = Values_Add values k ''<nil>''"
| "addValues sprintf values k (JBool b) = Values_Add values k (if b then ''true'' else ''false'')"
| "addValues sprintf values k (JNumber n) = Values_Add values k n"
| "addValues sprintf values k (JString s) = Values_Add values k s"
| "addValues_slice sprintf values k [] = values"
| "addValues_slice sprintf values k (v # rest) =
     addValues_slice sprintf (addValues sprintf values k v) k rest"
| "addValues_map sprintf values k [] = values"
| "addValues_map sprintf values k ((mapKey, v) # rest) =
     addValues_map sprintf (addValues sprintf values (sprintf k mapKey) v) k rest"

text \<open>The loop \<open>for k, v := range result { addValues(values, k, v) }\<close>.\<close>

fun addValues_range :: "(string \<Rightarrow> string \<Rightarrow> string) \<Rightarrow> Values \<Rightarrow> (string \<times> jvalue) list \<Rightarrow> Values" where
  "addValues_range sprintf values [] = values"
| "addValues_range sprintf values ((k, v) # rest) =
     addValues_range sprintf (addValues sprintf values k v) rest"

text \<open>
  \<open>toValues\<close>: a \<open>nil\<close> argument gives empty values; otherwise the argument is
  marshalled, the text is decoded into \<open>result\<close>, and every entry of \<open>result\<close> is
  added to fresh values.
\<close>

definition toValues :: "(string \<Rightarrow> string \<Rightarrow> string) \<Rightarrow> data \<Rightarrow> error + Values" where
  "toValues sprintf d =
     (case d of
        Nil \<Rightarrow> Inr []
      | MarshalFails e \<Rightarrow> Inl e
      | Marshals j \<Rightarrow>
          (case Decode_map j of
             Inl e \<Rightarrow> Inl e
           | Inr result \<Rightarrow> Inr (addValues_range sprintf [] result)))"

text \<open>
  \<open>fmt.Sprintf(format, a)\<close> on a format that holds no \<open>%\<close>: the format is copied and
  the unused operand is reported behind it.
\<close>

definition Sprintf_noverb :: "string \<Rightarrow> string \<Rightarrow> string" where
  "Sprintf_noverb format a = format @ ''%!(EXTRA string='' @ a @ '')''"

section \<open>URL resolution\<close>

text \<open>The inner loop of \<open>resolveURL\<close>: \<open>vs := query.Get(k); q.Add(k, vs)\<close> for every key.\<close>

fun add_first_values :: "Values \<Rightarrow> Values \<Rightarrow> string list \<Rightarrow> Values" where
  "add_first_values q query [] = q"
| "add_first_values q query (k # keys) =
     add_first_values (Values_Add q k (Values_Get query k)) query keys"

text \<open>The outer loop over the variadic \<open>queries\<close>.\<close>

fun collect_queries :: "Values \<Rightarrow> Values list \<Rightarrow> Values" where
  "collect_queries q [] = q"
| "collect_queries q (query # rest) =
     collect_queries (add_first_values q query (map fst query)) rest"

text \<open>
  \<open>resolveURL\<close> writes \<open>u.RawQuery\<close> through the pointer it is given, so the model
  returns the URL as the call leaves it together with the string.
\<close>

definition resolveURL :: "XClient \<Rightarrow> URL \<Rightarrow> Values list \<Rightarrow> URL \<times> string" where
  "resolveURL c u queries =
     (let q = collect_queries [] queries;
          u' = u\<lparr>RawQuery := Values_Encode q\<rparr>;
          baseQuery = Values_Encode (BaseQuery c);
          rawURL = URL_String u'
      in if baseQuery = [] then (u', rawURL)
         else if RawQuery u' = [] then (u', rawURL @ ''?'' @ baseQuery)
         else (u', rawURL @ ''&'' @ baseQuery))"

section \<open>Building and sending requests\<close>

text \<open>
  \<open>NewRequest\<close>. The parameter \<open>newreq\<close> is the check \<open>http.NewRequest\<close> makes on the
  method and the URL text: the error it returns, if any.
\<close>

definition NewRequest ::
  "(string \<Rightarrow> string \<Rightarrow> error option) \<Rightarrow> XClient \<Rightarrow> string \<Rightarrow> string \<Rightarrow> Values option \<Rightarrow> Header
     \<Rightarrow> error + Request" where
  "NewRequest newreq c method url body header =
     (let buf = (case body of None \<Rightarrow> NoBody | Some b \<Rightarrow> FormBody (Values_Encode b))
      in case newreq method url of
           Some err \<Rightarrow> Inl err
         | None \<Rightarrow>
             Inr \<lparr>Method = method, Target = url, Payload = buf,
                  HeaderSets = BaseHeader c @ header\<rparr>)"

text \<open>
  \<open>XDo\<close>, called at the moment \<open>now\<close>. The \<open>select\<close> on \<open>ctx.Done()\<close> runs after the
  transport has returned, at \<open>now + d\<close>.
\<close>

definition XDo :: "XClient \<Rightarrow> Context \<Rightarrow> nat \<Rightarrow> Request \<Rightarrow> error + Response" where
  "XDo c ctx now req =
     (case Client c ctx now req of
        (Inl err, d) \<Rightarrow>
          (case ctx_Err ctx (now + d) of
             Some ctxErr \<Rightarrow> Inl ctxErr
           | None \<Rightarrow> Inl err)
      | (Inr resp, d) \<Rightarrow> Inr resp)"

definition call ::
  "(string \<Rightarrow> string \<Rightarrow> error option) \<Rightarrow> XClient \<Rightarrow> Context \<Rightarrow> nat \<Rightarrow> string \<Rightarrow> string
     \<Rightarrow> Values option \<Rightarrow> Header \<Rightarrow> error + Response" where
  "call newreq c ctx now method url body header =
     (case NewRequest newreq c method url body header of
        Inl err \<Rightarrow> Inl err
      | Inr req \<Rightarrow> XDo c ctx now req)"

text \<open>
  The four verbs. Each returns the URL as the call leaves it, since \<open>resolveURL\<close> writes
  to it, and the result of \<open>call\<close>.
\<close>

definition Post ::
  "(string \<Rightarrow> string \<Rightarrow> string) \<Rightarrow> (string \<Rightarrow> string \<Rightarrow> error option) \<Rightarrow> XClient \<Rightarrow> Context \<Rightarrow> nat
     \<Rightarrow> URL \<Rightarrow> data \<Rightarrow> Header \<Rightarrow> URL \<times> (error + Response)" where
  "Post sprintf newreq c ctx now u body header =
     (case toValues sprintf body of
        Inl err \<Rightarrow> (u, Inl err)
      | Inr values \<Rightarrow>
          (case resolveURL c u [] of
             (u', url) \<Rightarrow> (u', call newreq c ctx now ''POST'' url (Some values) header)))"

definition Put ::
  "(string \<Rightarrow> string \<Rightarrow> string) \<Rightarrow> (string \<Rightarrow> string \<Rightarrow> error option) \<Rightarrow> XClient \<Rightarrow> Context \<Rightarrow> nat
     \<Rightarrow> URL \<Rightarrow> data \<Rightarrow> Header \<Rightarrow> URL \<times> (error + Response)" where
  "Put sprintf newreq c ctx now u body header =
     (case toValues sprintf body of
        Inl err \<Rightarrow> (u, Inl err)
      | Inr values \<Rightarrow>
          (case resolveURL c u [] of
             (u', url) \<Rightarrow> (u', call newreq c ctx now ''PUT'' url (Some values) header)))"

definition Delete ::
  "(string \<Rightarrow> string \<Rightarrow> string) \<Rightarrow> (string \<Rightarrow> string \<Rightarrow> error option) \<Rightarrow> XClient \<Rightarrow> Context \<Rightarrow> nat
     \<Rightarrow> URL \<Rightarrow> data \<Rightarrow> Header \<Rightarrow> URL \<times> (error + Response)" where
  "Delete sprintf newreq c ctx now u query header =
     (case toValues sprintf query of
        Inl err \<Rightarrow> (u, Inl err)
      | Inr values \<Rightarrow>
          (case resolveURL c u [values] of
             (u', url) \<Rightarrow> (u', call newreq c ctx now ''DELETE'' url None header)))"

definition Get ::
  "(string \<Rightarrow> string \<Rightarrow> string) \<Rightarrow> (string \<Rightarrow> string \<Rightarrow> error option) \<Rightarrow> XClient \<Rightarrow> Context \<Rightarrow> nat
     \<Rightarrow> URL \<Rightarrow> data \<Rightarrow> Header \<Rightarrow> URL \<times> (error + Response)" where
  "Get sprintf newreq c ctx now u query header =
     (case toValues sprintf query of
        Inl err \<Rightarrow> (u, Inl err)
      | Inr values \<Rightarrow>
          (case resolveURL c u [values] of
             (u', url) \<Rightarrow> (u', call newreq c ctx now ''GET'' url None header)))"

text \<open>
  The readers handed to \<open>NewMultipartRequest\<close>, by what the two type assertions of the
  loop and \<open>io.Copy\<close> see of them: a reader with no \<open>Close\<close> method
  (\<open>strings.Reader\<close>, \<open>bytes.Buffer\<close>), a reader wrapped by \<open>io.NopCloser\<close>, whose
  \<open>Close\<close> does nothing, and an \<open>*os.File\<close> with its name, its contents and whether it
  has been closed. Reading a closed file fails with \<open>os.ErrClosed\<close>.
\<close>

datatype Reader = StringsReader bytes | NopCloser bytes | OSFile string bytes bool

definition is_Closer :: "Reader \<Rightarrow> bool" where
  "is_Closer r = (case r of StringsReader _ \<Rightarrow> False | NopCloser _ \<Rightarrow> True | OSFile _ _ _ \<Rightarrow> True)"

definition Reader_Close :: "Reader \<Rightarrow> Reader" where
  "Reader_Close r = (case r of OSFile name d _ \<Rightarrow> OSFile name d True | _ \<Rightarrow> r)"

definition Reader_read :: "Reader \<Rightarrow> bytes \<times> error option" where
  "Reader_read r =
     (case r of
        StringsReader d \<Rightarrow> (d, None)
      | NopCloser d \<Rightarrow> (d, None)
      | OSFile name d c \<Rightarrow> if c then ([], Some ErrClosed) else (d, None))"

text \<open>
  The part the loop creates for a reader: \<open>CreateFormFile(key, file.Name())\<close> for an
  \<open>*os.File\<close>, \<open>CreateFormField(key)\<close> otherwise. Both write into a \<open>bytes.Buffer\<close>,
  which takes every write, so neither fails.
\<close>

definition create_part :: "string \<Rightarrow> Reader \<Rightarrow> bytes \<Rightarrow> part" where
  "create_part key r d =
     (case r of OSFile name _ _ \<Rightarrow> FormFile key name d | _ \<Rightarrow> FormField key d)"

text \<open>
  The loop of \<open>NewMultipartRequest\<close> over \<open>values\<close>, in \<open>range\<close> order. Each round
  closes the reader if it is an \<open>io.Closer\<close>, then creates the part, then copies the
  reader into it. The readers are returned as the loop leaves them.
\<close>

fun multipart_loop ::
  "part list \<Rightarrow> (string \<times> Reader) list \<Rightarrow> (error + part list) \<times> (string \<times> Reader) list" where
  "multipart_loop parts [] = (Inr parts, [])"
| "multipart_loop parts ((key, reader) # rest) =
     (let reader' = (if is_Closer reader then Reader_Close reader else reader)
      in case Reader_read reader' of
           (d, Some err) \<Rightarrow> (Inl err, (key, reader') # rest)
         | (d, None) \<Rightarrow>
             (case multipart_loop (parts @ [create_part key reader' d]) rest of
                (result, rest') \<Rightarrow> (result, (key, reader') # rest')))"

text \<open>\<open>boundary\<close> is the boundary the \<open>multipart.Writer\<close> drew when it was created.\<close>

definition NewMultipartRequest ::
  "(string \<Rightarrow> string \<Rightarrow> error option) \<Rightarrow> string \<Rightarrow> XClient \<Rightarrow> string \<Rightarrow> (string \<times> Reader) list \<Rightarrow> Header
     \<Rightarrow> (error + Request) \<times> (string \<times> Reader) list" where
  "NewMultipartRequest newreq boundary c url values header =
     (case multipart_loop [] values of
        (Inl err, values') \<Rightarrow> (Inl err, values')
      | (Inr parts, values') \<Rightarrow>
          (case newreq ''POST'' url of
             Some err \<Rightarrow> (Inl err, values')
           | None \<Rightarrow>
               (Inr \<lparr>Method = ''POST'', Target = url, Payload = MultipartBody parts,
                     HeaderSets = BaseHeader c
                       @ [(''Content-Type'', ''multipart/form-data; boundary='' @ boundary)]
                       @ header\<rparr>,
                values')))"

section \<open>Reading responses\<close>

text \<open>
  A stream is what a reader delivers when it is read to its end: the bytes, and the error
  that ends them (\<open>None\<close> for \<open>io.EOF\<close> after the last byte).
\<close>

type_synonym stream = "bytes \<times> error option"

text \<open>Reading the response body; a body that was closed before fails at once.\<close>

definition Body_read :: "Body \<Rightarrow> stream" where
  "Body_read b = (if closed b then ([], Some ErrBodyReadAfterClose) else (content b, fault b))"

text \<open>
  The two libraries the read modes rest on are parameters. \<open>gz s\<close> is the gzip
  format: for a reader that delivers \<open>s\<close>, the error of a bad member header, or the
  stream the decompressor delivers. \<open>dec s v\<close> is \<open>json.NewDecoder(r).Decode(v)\<close> on
  a reader that delivers \<open>s\<close>, with \<open>v\<close> what the target holds before: the error and
  what the target holds afterwards.
\<close>

type_synonym gunzip = "stream \<Rightarrow> error + stream"

type_synonym 'v decoder = "stream \<Rightarrow> 'v \<Rightarrow> error option \<times> 'v"

text \<open>
  \<open>gzip.NewReader(r)\<close> reads the ten bytes of the member header with \<open>io.ReadFull\<close>
  before anything else and returns the error of that read: \<open>io.EOF\<close> when \<open>r\<close> ends
  before its first byte, the error of \<open>r\<close> when \<open>r\<close> fails before its first byte. On
  every other stream the format decides.
\<close>

definition gzip_NewReader :: "gunzip \<Rightarrow> stream \<Rightarrow> error + stream" where
  "gzip_NewReader gz s =
     (case s of
        ([], None) \<Rightarrow> Inl EOF
      | ([], Some err) \<Rightarrow> Inl err
      | (c # bs, e) \<Rightarrow> gz (c # bs, e))"

text \<open>
  The variable \<open>reader\<close> of \<open>DecodeJson\<close> and \<open>ReadAll\<close> holds either \<open>resp.Body\<close>
  itself or a \<open>*gzip.Reader\<close> that reads from it.
\<close>

datatype ReadCloser = TheBody | GzipReader stream

definition choose_reader :: "gunzip \<Rightarrow> Response \<Rightarrow> error + ReadCloser" where
  "choose_reader gz resp =
     (if Header_Get (RespHeader resp) ''Content-Encoding'' = ''gzip''
      then (case gzip_NewReader gz (Body_read (RespBody resp)) of
              Inl err \<Rightarrow> Inl err
            | Inr z \<Rightarrow> Inr (GzipReader z))
      else Inr TheBody)"

definition reader_stream :: "Response \<Rightarrow> ReadCloser \<Rightarrow> stream" where
  "reader_stream resp r = (case r of TheBody \<Rightarrow> Body_read (RespBody resp) | GzipReader z \<Rightarrow> z)"

text \<open>
  The deferred \<open>r.Close()\<close>. Closing \<open>resp.Body\<close> closes the body; closing a
  \<open>*gzip.Reader\<close> does not close the reader underneath it.
\<close>

definition reader_Close :: "Response \<Rightarrow> ReadCloser \<Rightarrow> Response" where
  "reader_Close resp r =
     (case r of
        TheBody \<Rightarrow> resp\<lparr>RespBody := (RespBody resp)\<lparr>closed := True\<rparr>\<rparr>
      | GzipReader z \<Rightarrow> resp)"

text \<open>
  Each read mode returns its Go results and the response as the call leaves it.
  \<open>DecodeJson\<close> returns the error and the target.
\<close>

definition DecodeJson :: "gunzip \<Rightarrow> 'v decoder \<Rightarrow> Response \<Rightarrow> 'v \<Rightarrow> (error option \<times> 'v) \<times> Response" where
  "DecodeJson gz dec resp v =
     (case choose_reader gz resp of
        Inl err \<Rightarrow> ((Some err, v), resp)
      | Inr reader \<Rightarrow>
          (case dec (reader_stream resp reader) v of
             (decErr, v') \<Rightarrow>
               ((if decErr = Some EOF then None else decErr, v'), reader_Close resp reader)))"

text \<open>
  \<open>Copy\<close> into a sink that takes every write (\<open>sink\<close> is what it holds before); the
  results are the sink, \<open>written\<close> and \<open>err\<close>.
\<close>

definition Copy :: "Response \<Rightarrow> bytes \<Rightarrow> (bytes \<times> int \<times> error option) \<times> Response" where
  "Copy resp sink =
     (case Body_read (RespBody resp) of
        (bs, err) \<Rightarrow> ((sink @ bs, int (length bs), err), resp))"

definition ReadAll :: "gunzip \<Rightarrow> Response \<Rightarrow> (bytes \<times> error option) \<times> Response" where
  "ReadAll gz resp =
     (case choose_reader gz resp of
        Inl err \<Rightarrow> (([], Some err), resp)
      | Inr reader \<Rightarrow> (reader_stream resp reader, reader_Close resp reader))"

definition String :: "gunzip \<Rightarrow> Response \<Rightarrow> (string \<times> error option) \<times> Response" where
  "String gz resp =
     (case ReadAll gz resp of
        ((v, Some err), resp') \<Rightarrow> (([], Some err), resp')
      | ((v, None), resp') \<Rightarrow> ((v, None), resp'))"

section \<open>Inputs of the worked instances\<close>

text \<open>
  A check of \<open>http.NewRequest\<close> that accepts, a transport that fails after three ticks,
  a client with the base query \<open>a=1\<close>, the URL \<open>http://h/p\<close> and a request.
\<close>

definition accept_all :: "string \<Rightarrow> string \<Rightarrow> error option" where
  "accept_all method url = None"

definition refusing_transport :: transport where
  "refusing_transport ctx t req = (Inl (OtherError ''dial tcp: connection refused''), 3)"

definition example_client :: XClient where
  "example_client = \<lparr>Client = refusing_transport, BaseHeader = [], BaseQuery = [(''a'', [''1''])]\<rparr>"

definition example_url :: URL where
  "example_url = \<lparr>Front = ''http://h/p'', ForceQuery = False, RawQuery = [], EscapedFragment = []\<rparr>"

definition example_request :: Request where
  "example_request = \<lparr>Method = ''GET'', Target = ''http://h/p'', Payload = NoBody, HeaderSets = []\<rparr>"

text \<open>
  \<open>encoding/json\<close> restricted to the two boolean literals, to put in place of the
  decoder: the literal is stored, an empty stream is \<open>io.EOF\<close> and leaves the target
  alone, anything else is a syntax error.
\<close>

definition enc_bool :: "bool \<Rightarrow> bytes" where
  "enc_bool b = (if b then ''true'' else ''false'')"

definition dec_bool :: "bool decoder" where
  "dec_bool s v =
     (case s of
        (bs, e) \<Rightarrow>
          if bs = ''true'' then (None, True)
          else if bs = ''false'' then (None, False)
          else if bs = [] then (case e of None \<Rightarrow> (Some EOF, v) | Some err \<Rightarrow> (Some err, v))
          else (Some (OtherError ''invalid character''), v))"

text \<open>
  A stand-in for the compressor and the decompressor in the worked instances: the
  packed form of \<open>bs\<close> is a marker byte followed by \<open>bs\<close>, and a stream that does not
  start with the marker is rejected the way a bad gzip header is.
\<close>

definition pack :: "bytes \<Rightarrow> bytes" where
  "pack bs = CHR ''Z'' # bs"

definition unpack :: gunzip where
  "unpack s =
     (case s of
        (c # bs, e) \<Rightarrow> if c = CHR ''Z'' then Inr (bs, e) else Inl (OtherError ''gzip: invalid header'')
      | ([], e) \<Rightarrow> Inl (OtherError ''gzip: invalid header''))"

text \<open>
  \<open>has_value q k x\<close>: the value \<open>x\<close> is among the values of the key \<open>k\<close> in \<open>q\<close>.
\<close>

definition has_value :: "Values \<Rightarrow> string \<Rightarrow> string \<Rightarrow> bool" where
  "has_value q k x = (case map_of q k of None \<Rightarrow> False | Some vs \<Rightarrow> x \<in> set vs)"


section \<open>Properties of \<open>url.Values\<close> and of the flattening\<close>

text \<open>
  \<open>Add\<close> puts its value under its key and keeps every value that was there.
\<close>

lemma has_value_iff: "has_value q k x = (\<exists>vs. map_of q k = Some vs \<and> x \<in> set vs)"
  by (simp add: has_value_def split: option.splits)

lemma Values_Add_has: "has_value (Values_Add q k x) k x"
  by (induction q) (auto simp: has_value_iff)

lemma Values_Add_keeps: "has_value q k x \<Longrightarrow> has_value (Values_Add q k' x') k x"
  by (induction q) (auto simp: has_value_iff)

lemma addValues_keeps:
  "has_value q k0 x0 \<Longrightarrow> has_value (addValues sprintf q k v) k0 x0"
  and "has_value q k0 x0 \<Longrightarrow> has_value (addValues_slice sprintf q k vs) k0 x0"
  and "has_value q k0 x0 \<Longrightarrow> has_value (addValues_map sprintf q k kvs) k0 x0"
  by (induction sprintf q k v and sprintf q k vs and sprintf q k kvs
      rule: addValues_addValues_slice_addValues_map.induct)
    (simp_all add: Values_Add_keeps)

lemma addValues_range_keeps:
  "has_value q k0 x0 \<Longrightarrow> has_value (addValues_range sprintf q kvs) k0 x0"
  by (induction kvs arbitrary: q) (auto simp: addValues_keeps)

lemma addValues_range_append:
  "addValues_range sprintf q (xs @ ys)
     = addValues_range sprintf (addValues_range sprintf q xs) ys"
  by (induction xs arbitrary: q) auto

text \<open>
  The keys stay distinct: \<open>Add\<close> appends a key only when it is new, so what
  \<open>toValues\<close> returns is a map.
\<close>

lemma keys_Values_Add:
  "map fst (Values_Add q k x) = (if k \<in> fst ` set q then map fst q else map fst q @ [k])"
proof (induction q)
  case Nil
  then show ?case by simp
next
  case (Cons p q)
  obtain k' vs where p: "p = (k', vs)" by (cases p)
  show ?case using Cons by (cases "k' = k") (simp_all add: p)
qed

lemma distinct_Values_Add: "distinct (map fst q) \<Longrightarrow> distinct (map fst (Values_Add q k x))"
  by (simp add: keys_Values_Add)

lemma distinct_addValues:
  "distinct (map fst q) \<Longrightarrow> distinct (map fst (addValues sprintf q k v))"
  and "distinct (map fst q) \<Longrightarrow> distinct (map fst (addValues_slice sprintf q k vs))"
  and "distinct (map fst q) \<Longrightarrow> distinct (map fst (addValues_map sprintf q k kvs))"
  by (induction sprintf q k v and sprintf q k vs and sprintf q k kvs
      rule: addValues_addValues_slice_addValues_map.induct)
    (simp_all add: distinct_Values_Add)

lemma distinct_addValues_range:
  "distinct (map fst q) \<Longrightarrow> distinct (map fst (addValues_range sprintf q kvs))"
  by (induction kvs arbitrary: q) (auto simp: distinct_addValues)

lemma toValues_distinct: "toValues sprintf d = Inr values \<Longrightarrow> distinct (map fst values)"
  by (auto simp: toValues_def distinct_addValues_range split: data.splits sum.splits)

text \<open>
  The query \<open>resolveURL\<close> collects from one \<open>url.Values\<close> holds every key once,
  with the value \<open>Get\<close> returns for it, and its encoding lists the keys in sorted order.
\<close>

lemma Values_Encode_Nil: "Values_Encode [] = []"
  by (simp add: Values_Encode_def)

lemma Values_Add_fresh: "k \<notin> fst ` set q \<Longrightarrow> Values_Add q k x = q @ [(k, [x])]"
  by (induction q) auto

lemma add_first_values_fresh:
  "distinct ks \<Longrightarrow> set ks \<inter> fst ` set q = {} \<Longrightarrow>
   add_first_values q query ks = q @ map (\<lambda>k. (k, [Values_Get query k])) ks"
proof (induction ks arbitrary: q)
  case Nil
  then show ?case by simp
next
  case (Cons k ks)
  have fresh: "k \<notin> fst ` set q" using Cons.prems by auto
  have "set ks \<inter> fst ` set (q @ [(k, [Values_Get query k])]) = {}"
    using Cons.prems by auto
  with Cons have "add_first_values (q @ [(k, [Values_Get query k])]) query ks
      = (q @ [(k, [Values_Get query k])]) @ map (\<lambda>k. (k, [Values_Get query k])) ks"
    by simp
  then show ?case by (simp add: Values_Add_fresh [OF fresh])
qed

lemma map_of_singletons:
  "k \<in> set ks \<Longrightarrow> map_of (map (\<lambda>k. (k, [f k])) ks) k = Some [f k]"
  by (induction ks) auto

lemma concat_map_singleton: "concat (map (\<lambda>k. [g k]) xs) = map g xs"
  by (induction xs) auto

lemma Values_Encode_singletons:
  "Values_Encode (map (\<lambda>k. (k, [f k])) ks)
     = join_amp (map (\<lambda>k. QueryEscape k @ ''='' @ QueryEscape (f k)) (sort ks))"
proof -
  let ?v = "map (\<lambda>k. (k, [f k])) ks"
  have keys: "map fst ?v = ks"
    by (induction ks) auto
  have enc: "map (Encode_key ?v) (sort ks)
      = map (\<lambda>k. [QueryEscape k @ ''='' @ QueryEscape (f k)]) (sort ks)"
    by (rule map_cong [OF refl]) (simp add: Encode_key_def map_of_singletons)
  show ?thesis
    unfolding Values_Encode_def keys enc concat_map_singleton ..
qed

lemma collect_one_query:
  "distinct (map fst query) \<Longrightarrow>
   collect_queries [] [query] = map (\<lambda>k. (k, [Values_Get query k])) (map fst query)"
  using add_first_values_fresh [of "map fst query" "[]" query] by simp


section \<open>Claims on the flattening of structured values\<close>

text \<open>
  Claim C1 says that a key of the input mapping whose value is null is left out of the
  result: no entry, not even an empty string. The code has no case for \<open>nil\<close>: the
  \<open>default\<close> branch of \<open>addValues\<close> formats it with \<open>%v\<close>, so the mapping
  \<open>{"k": null}\<close> is flattened to the key \<open>k\<close> with the one value \<open><nil>\<close>.
\<close>

theorem toValues_null_value:
  "toValues sprintf (Marshals (JObject [(''k'', JNull)])) = Inr [(''k'', [''<nil>''])]"
  by (simp add: toValues_def)

text \<open>
  The same holds for every mapping and every position of the null entry in it: the key
  is present in the result and \<open><nil>\<close> is one of its values.
\<close>

lemma toValues_null_value_general:
  "\<exists>values vs. toValues sprintf (Marshals (JObject (before @ (k, JNull) # after))) = Inr values
      \<and> map_of values k = Some vs \<and> ''<nil>'' \<in> set vs"
proof -
  let ?q = "addValues_range sprintf [] before"
  have "has_value (Values_Add ?q k ''<nil>'') k ''<nil>''"
    by (rule Values_Add_has)
  then have "has_value (addValues_range sprintf (Values_Add ?q k ''<nil>'') after) k ''<nil>''"
    by (rule addValues_range_keeps)
  then have "has_value (addValues_range sprintf [] (before @ (k, JNull) # after)) k ''<nil>''"
    by (simp add: addValues_range_append)
  then show ?thesis
    by (simp add: toValues_def has_value_iff)
qed

text \<open>
  A nested mapping under a key that holds no \<open>%\<close>: \<open>fmt.Sprintf(k, mapKey)\<close> copies the
  key and reports the child key as an unused operand.
\<close>

lemma toValues_nested_example:
  "toValues Sprintf_noverb
     (Marshals (JObject [(''tags'', JArray [JString ''x'', JString ''y'']),
                         (''meta'', JObject [(''a'', JNumber ''1'')]),
                         (''ok'', JBool True)]))
   = Inr [(''tags'', [''x'', ''y'']), (''meta%!(EXTRA string=a)'', [''1'']), (''ok'', [''true''])]"
  by (simp add: toValues_def Sprintf_noverb_def)

text \<open>
  Claim C4 says that \<open>toValues\<close> succeeds on every tree of scalars, sequences and
  string-keyed mappings, a top-level scalar or sequence included, and fails only on
  inputs that are no such tree. It fails on a top-level number and on a top-level
  sequence: the decoder's target is a \<open>map[string]interface{}\<close>.
\<close>

theorem toValues_top_level_counterexample:
  "toValues Sprintf_noverb (Marshals (JNumber ''5'')) = Inl (UnmarshalTypeError ''number'')
   \<and> toValues Sprintf_noverb (Marshals (JArray [JString ''x'', JString ''y'']))
       = Inl (UnmarshalTypeError ''array'')"
  by (simp add: toValues_def)

text \<open>
  Claim C4 as amended: \<open>toValues\<close> succeeds exactly on \<open>nil\<close>, on a value whose
  JSON encoding is \<open>null\<close> and on a value whose JSON encoding is an object; then the
  result is empty, respectively the flattening of the object's entries. A value that
  encodes as a boolean, a number, a string or a sequence is rejected with the decoder's
  type error, and a value that \<open>json.Marshal\<close> rejects with that error.
\<close>

theorem toValues_succeeds_iff:
  "((\<exists>values. toValues sprintf d = Inr values)
      = (d = Nil \<or> d = Marshals JNull \<or> (\<exists>kvs. d = Marshals (JObject kvs))))
   \<and> toValues sprintf Nil = Inr []
   \<and> toValues sprintf (Marshals JNull) = Inr []
   \<and> toValues sprintf (Marshals (JObject kvs)) = Inr (addValues_range sprintf [] kvs)
   \<and> toValues sprintf (Marshals (JBool b)) = Inl (UnmarshalTypeError ''bool'')
   \<and> toValues sprintf (Marshals (JNumber n)) = Inl (UnmarshalTypeError ''number'')
   \<and> toValues sprintf (Marshals (JString s)) = Inl (UnmarshalTypeError ''string'')
   \<and> toValues sprintf (Marshals (JArray xs)) = Inl (UnmarshalTypeError ''array'')
   \<and> toValues sprintf (MarshalFails e) = Inl e"
proof -
  have "(\<exists>values. toValues sprintf d = Inr values)
      = (d = Nil \<or> d = Marshals JNull \<or> (\<exists>kvs. d = Marshals (JObject kvs)))"
  proof (cases d)
    case Nil
    then show ?thesis by (simp add: toValues_def)
  next
    case (Marshals j)
    then show ?thesis by (cases j) (simp_all add: toValues_def)
  next
    case (MarshalFails e)
    then show ?thesis by (simp add: toValues_def)
  qed
  then show ?thesis by (simp add: toValues_def)
qed


section \<open>Claims on multipart requests\<close>

text \<open>
  Claim C3 says that a closable reader is registered and copied into the body first and
  closed only afterwards, so that its bytes reach the multipart body. The loop closes
  the reader before it creates the part and before \<open>io.Copy\<close>: for an open file the
  copy reads a closed file, and the call returns \<open>os.ErrClosed\<close> and no request.
\<close>

theorem NewMultipartRequest_closes_file_first:
  "NewMultipartRequest newreq boundary c url [(''file'', OSFile ''a.txt'' ''hello'' False)] header
     = (Inl ErrClosed, [(''file'', OSFile ''a.txt'' ''hello'' True)])"
  by (simp add: NewMultipartRequest_def is_Closer_def Reader_Close_def Reader_read_def)

text \<open>
  A reader without a \<open>Close\<close> method does reach the body.
\<close>

lemma NewMultipartRequest_plain:
  "newreq ''POST'' url = None \<Longrightarrow>
   fst (NewMultipartRequest newreq boundary c url [(''note'', StringsReader ''hello'')] header)
     = Inr \<lparr>Method = ''POST'', Target = url,
            Payload = MultipartBody [FormField ''note'' ''hello''],
            HeaderSets = BaseHeader c
              @ [(''Content-Type'', ''multipart/form-data; boundary='' @ boundary)]
              @ header\<rparr>"
  by (simp add: NewMultipartRequest_def is_Closer_def Reader_Close_def Reader_read_def
      create_part_def)


section \<open>Claims on reading responses\<close>

text \<open>
  Claim C2 says that after every read mode, under identity and under gzip encoding, the
  response body has been closed. Under \<open>Content-Encoding: gzip\<close> the deferred
  \<open>Close\<close> of \<open>ReadAll\<close> and \<open>DecodeJson\<close> closes the \<open>*gzip.Reader\<close> only, and
  \<open>Copy\<close> closes nothing: in all three cases the body is still open afterwards.
\<close>

theorem gzip_read_leaves_body_open:
  "closed (RespBody (snd (ReadAll gz
      \<lparr>RespHeader = [(''Content-Encoding'', [''gzip''])],
       RespBody = \<lparr>content = bs, fault = None, closed = False\<rparr>\<rparr>))) = False
   \<and> closed (RespBody (snd (DecodeJson gz dec
      \<lparr>RespHeader = [(''Content-Encoding'', [''gzip''])],
       RespBody = \<lparr>content = bs, fault = None, closed = False\<rparr>\<rparr> v))) = False
   \<and> closed (RespBody (snd (Copy
      \<lparr>RespHeader = [],
       RespBody = \<lparr>content = bs, fault = None, closed = False\<rparr>\<rparr> sink))) = False"
  by (simp add: ReadAll_def DecodeJson_def Copy_def choose_reader_def Header_Get_def
      reader_Close_def Body_read_def split: sum.splits prod.splits)

text \<open>
  Under identity encoding \<open>ReadAll\<close> and \<open>DecodeJson\<close> do close the body, whatever
  the read returns.
\<close>

lemma identity_read_closes_body:
  "Header_Get (RespHeader resp) ''Content-Encoding'' \<noteq> ''gzip'' \<Longrightarrow>
   closed (RespBody (snd (ReadAll gz resp))) \<and> closed (RespBody (snd (DecodeJson gz dec resp v)))"
  by (simp add: ReadAll_def DecodeJson_def choose_reader_def reader_Close_def split: prod.splits)

text \<open>
  Claim C5 says that \<open>DecodeJson\<close> recovers \<open>X\<close> from a body that is the JSON encoding
  of \<open>X\<close>, plain or gzip-compressed, and that an empty body is not an error: the end
  of stream is swallowed and the target is left unchanged. The comment in the code says
  the same (\<open>ignore EOF errors caused by empty response body\<close>). Under
  \<open>Content-Encoding: gzip\<close> a body of no bytes does not get that far:
  \<open>gzip.NewReader\<close> meets the end of stream, and \<open>DecodeJson\<close> returns its
  \<open>io.EOF\<close> to the caller before the decoder runs.
\<close>

theorem DecodeJson_gzip_empty_body:
  "DecodeJson gz dec
     \<lparr>RespHeader = [(''Content-Encoding'', [''gzip''])],
      RespBody = \<lparr>content = [], fault = None, closed = False\<rparr>\<rparr> v
   = ((Some EOF, v),
      \<lparr>RespHeader = [(''Content-Encoding'', [''gzip''])],
       RespBody = \<lparr>content = [], fault = None, closed = False\<rparr>\<rparr>)"
  by (simp add: DecodeJson_def choose_reader_def Header_Get_def Body_read_def gzip_NewReader_def)

text \<open>\<open>ReadAll\<close> takes the same early return.\<close>

lemma ReadAll_gzip_empty_body:
  "fst (ReadAll gz
     \<lparr>RespHeader = [(''Content-Encoding'', [''gzip''])],
      RespBody = \<lparr>content = [], fault = None, closed = False\<rparr>\<rparr>) = ([], Some EOF)"
  by (simp add: ReadAll_def choose_reader_def Header_Get_def Body_read_def gzip_NewReader_def)

text \<open>
  Under identity encoding the empty body is not an error, given that the decoder answers
  \<open>io.EOF\<close> on an empty stream and leaves the target alone.
\<close>

lemma DecodeJson_identity_empty_body:
  "dec ([], None) v = (Some EOF, v) \<Longrightarrow>
   fst (DecodeJson gz dec
     \<lparr>RespHeader = [], RespBody = \<lparr>content = [], fault = None, closed = False\<rparr>\<rparr> v) = (None, v)"
  by (simp add: DecodeJson_def choose_reader_def Header_Get_def Body_read_def reader_stream_def)

text \<open>
  The rest of the claim holds. Let \<open>enc\<close> be the JSON encoder and \<open>dec\<close> the decoder,
  with \<open>dec\<close> reading the encoding of \<open>x\<close> back as \<open>x\<close> and answering \<open>io.EOF\<close> on
  an empty stream without touching the target; let the gzip reader undo \<open>compress\<close>.
  Then \<open>DecodeJson\<close> returns no error and leaves \<open>x\<close> in the target, both for the
  body \<open>enc x\<close> under a header that is not gzip and for the body \<open>compress (enc x)\<close>
  under \<open>Content-Encoding: gzip\<close>; and when the stream handed to the decoder is
  empty, \<open>DecodeJson\<close> returns no error and the target keeps its value.
\<close>

lemma DecodeJson_round_trip:
  assumes codec: "\<And>v. dec (enc x, None) v = (None, x)"
    and empty: "\<And>v. dec ([], None) v = (Some EOF, v)"
    and gzip: "\<And>bs. gzip_NewReader gz (compress bs, None) = Inr (bs, None)"
    and h: "Header_Get h ''Content-Encoding'' \<noteq> ''gzip''"
    and hz: "Header_Get hz ''Content-Encoding'' = ''gzip''"
  shows "fst (DecodeJson gz dec
            \<lparr>RespHeader = h, RespBody = \<lparr>content = enc x, fault = None, closed = False\<rparr>\<rparr> v)
          = (None, x)
       \<and> fst (DecodeJson gz dec
            \<lparr>RespHeader = hz,
             RespBody = \<lparr>content = compress (enc x), fault = None, closed = False\<rparr>\<rparr> v)
          = (None, x)
       \<and> fst (DecodeJson gz dec
            \<lparr>RespHeader = h, RespBody = \<lparr>content = [], fault = None, closed = False\<rparr>\<rparr> v)
          = (None, v)
       \<and> fst (DecodeJson gz dec
            \<lparr>RespHeader = hz,
             RespBody = \<lparr>content = compress [], fault = None, closed = False\<rparr>\<rparr> v)
          = (None, v)"
  using h hz
  by (simp add: DecodeJson_def choose_reader_def reader_stream_def Body_read_def codec empty gzip)

text \<open>
  An instance: the value \<open>true\<close>, plain and packed, and the empty stream with the
  target holding \<open>true\<close> before.
\<close>

lemma DecodeJson_round_trip_example:
  "fst (DecodeJson unpack dec_bool
      \<lparr>RespHeader = [], RespBody = \<lparr>content = ''true'', fault = None, closed = False\<rparr>\<rparr> False)
    = (None, True)
   \<and> fst (DecodeJson unpack dec_bool
      \<lparr>RespHeader = [(''Content-Encoding'', [''gzip''])],
       RespBody = \<lparr>content = ''Ztrue'', fault = None, closed = False\<rparr>\<rparr> False)
    = (None, True)
   \<and> fst (DecodeJson unpack dec_bool
      \<lparr>RespHeader = [], RespBody = \<lparr>content = [], fault = None, closed = False\<rparr>\<rparr> True)
    = (None, True)
   \<and> fst (DecodeJson unpack dec_bool
      \<lparr>RespHeader = [(''Content-Encoding'', [''gzip''])],
       RespBody = \<lparr>content = ''Z'', fault = None, closed = False\<rparr>\<rparr> True)
    = (None, True)"
proof -
  have codec: "\<And>v. dec_bool (enc_bool True, None) v = (None, True)"
    by (simp add: dec_bool_def enc_bool_def)
  have empty: "\<And>v. dec_bool ([], None) v = (Some EOF, v)"
    by (simp add: dec_bool_def)
  have gzip: "\<And>bs. gzip_NewReader unpack (pack bs, None) = Inr (bs, None)"
    by (simp add: gzip_NewReader_def unpack_def pack_def)
  have h: "Header_Get [] ''Content-Encoding'' \<noteq> ''gzip''"
    by (simp add: Header_Get_def)
  have hz: "Header_Get [(''Content-Encoding'', [''gzip''])] ''Content-Encoding'' = ''gzip''"
    by (simp add: Header_Get_def)
  show ?thesis
    using
      DecodeJson_round_trip
        [of dec_bool enc_bool True unpack pack, OF codec empty gzip h hz, of False]
      DecodeJson_round_trip
        [of dec_bool enc_bool True unpack pack, OF codec empty gzip h hz, of True]
    by (simp add: enc_bool_def pack_def)
qed

text \<open>
  Claim C7 says that \<open>Copy\<close> writes the raw body to the sink for every response and
  never decompresses. For a body that has not been closed, \<open>Copy\<close> appends exactly
  the bytes of the body to the sink, reports their number and the error that ended the
  stream, and leaves the response as it was; the headers play no part in what it
  delivers. Under \<open>Content-Encoding: gzip\<close>, where \<open>ReadAll\<close> returns the
  decompressed stream and \<open>DecodeJson\<close> decodes it, \<open>Copy\<close> still delivers the bytes
  of the body.
\<close>

theorem Copy_raw_body:
  "fst (Copy (resp\<lparr>RespHeader := h\<rparr>) sink) = fst (Copy resp sink)
   \<and> (\<not> closed (RespBody resp) \<longrightarrow>
      Copy resp sink
        = ((sink @ content (RespBody resp), int (length (content (RespBody resp))),
            fault (RespBody resp)), resp))
   \<and> (\<not> closed (RespBody resp)
        \<and> Header_Get (RespHeader resp) ''Content-Encoding'' = ''gzip''
        \<and> gzip_NewReader gz (content (RespBody resp), fault (RespBody resp)) = Inr z \<longrightarrow>
      fst (ReadAll gz resp) = z
      \<and> fst (DecodeJson gz dec resp v)
          = (case dec z v of (decErr, v') \<Rightarrow> (if decErr = Some EOF then None else decErr, v'))
      \<and> fst (fst (Copy resp sink)) = sink @ content (RespBody resp))"
  by (simp add: Copy_def ReadAll_def DecodeJson_def choose_reader_def reader_stream_def
      Body_read_def split: prod.splits)

text \<open>
  Claim C7 at an instance: a packed body under the gzip header is copied as it is,
  while \<open>ReadAll\<close> returns the unpacked bytes.
\<close>

theorem Copy_raw_body_witness:
  "Copy \<lparr>RespHeader = [(''Content-Encoding'', [''gzip''])],
         RespBody = \<lparr>content = ''Ztrue'', fault = None, closed = False\<rparr>\<rparr> ''''
     = ((''Ztrue'', 5, None),
        \<lparr>RespHeader = [(''Content-Encoding'', [''gzip''])],
         RespBody = \<lparr>content = ''Ztrue'', fault = None, closed = False\<rparr>\<rparr>)
   \<and> fst (ReadAll unpack
        \<lparr>RespHeader = [(''Content-Encoding'', [''gzip''])],
         RespBody = \<lparr>content = ''Ztrue'', fault = None, closed = False\<rparr>\<rparr>) = (''true'', None)"
proof -
  let ?resp = "\<lparr>RespHeader = [(''Content-Encoding'', [''gzip''])],
         RespBody = \<lparr>content = ''Ztrue'', fault = None, closed = False\<rparr>\<rparr>"
  have opened: "\<not> closed (RespBody ?resp)"
    by simp
  have gz: "\<not> closed (RespBody ?resp)
        \<and> Header_Get (RespHeader ?resp) ''Content-Encoding'' = ''gzip''
        \<and> gzip_NewReader unpack (content (RespBody ?resp), fault (RespBody ?resp))
            = Inr (''true'', None)"
    by (simp add: Header_Get_def gzip_NewReader_def unpack_def)
  note inst = Copy_raw_body [where resp = ?resp and h = "[]" and sink = "''''" and gz = unpack
      and z = "(''true'', None)" and dec = dec_bool and v = False]
  have "Copy ?resp '''' = ((''Ztrue'', 5, None), ?resp)"
    using inst [THEN conjunct2, THEN conjunct1, THEN mp, OF opened] by simp
  moreover have "fst (ReadAll unpack ?resp) = (''true'', None)"
    using inst [THEN conjunct2, THEN conjunct2, THEN mp, OF gz] by simp
  ultimately show ?thesis by simp
qed

section \<open>Claims on sending requests\<close>

text \<open>
  Claim C8 says that when the transport fails and the context is done, because it was
  cancelled before the call or because it became done while the call ran, \<open>XDo\<close>
  returns the error of the context rather than the error of the transport, and that on a
  transport failure under a context that is not done it returns the transport's error
  unchanged.
\<close>

theorem XDo_prefers_context_error:
  assumes "fst (Client c ctx now req) = Inl err"
  shows "(ctx_Err ctx now = Some ctxErr \<longrightarrow> XDo c ctx now req = Inl ctxErr)
       \<and> (ctx_Err ctx (now + snd (Client c ctx now req)) = Some ctxErr
            \<longrightarrow> XDo c ctx now req = Inl ctxErr)
       \<and> (ctx_Err ctx (now + snd (Client c ctx now req)) = None
            \<longrightarrow> XDo c ctx now req = Inl err)"
proof -
  obtain d where call: "Client c ctx now req = (Inl err, d)"
    using assms by (cases "Client c ctx now req") simp
  have later: "ctx_Err ctx (now + d) = Some ctxErr" if "ctx_Err ctx now = Some ctxErr"
    using that by (auto simp: ctx_Err_def split: option.splits if_splits)
  show ?thesis
    using call later by (simp add: XDo_def)
qed

text \<open>
  Claim C8 at an instance: a transport that fails after three ticks, called at moment
  five under a context cancelled from the start, under one whose deadline is moment
  seven, and under one that is never done.
\<close>

theorem XDo_prefers_context_error_witness:
  "XDo example_client \<lparr>done_from = Some (0, Canceled)\<rparr> 5 example_request = Inl Canceled
   \<and> XDo example_client \<lparr>done_from = Some (7, DeadlineExceeded)\<rparr> 5 example_request
       = Inl DeadlineExceeded
   \<and> XDo example_client \<lparr>done_from = None\<rparr> 5 example_request
       = Inl (OtherError ''dial tcp: connection refused'')"
proof -
  have fails: "fst (Client example_client ctx 5 example_request)
      = Inl (OtherError ''dial tcp: connection refused'')" for ctx
    by (simp add: example_client_def refusing_transport_def)
  have took: "snd (Client example_client ctx 5 example_request) = 3" for ctx
    by (simp add: example_client_def refusing_transport_def)
  have "XDo example_client \<lparr>done_from = Some (0, Canceled)\<rparr> 5 example_request = Inl Canceled"
    using XDo_prefers_context_error [OF fails, of "\<lparr>done_from = Some (0, Canceled)\<rparr>" Canceled]
    by (simp add: ctx_Err_def)
  moreover have "XDo example_client \<lparr>done_from = Some (7, DeadlineExceeded)\<rparr> 5 example_request
       = Inl DeadlineExceeded"
    using XDo_prefers_context_error
      [OF fails, of "\<lparr>done_from = Some (7, DeadlineExceeded)\<rparr>" DeadlineExceeded]
    by (simp add: ctx_Err_def took)
  moreover have "XDo example_client \<lparr>done_from = None\<rparr> 5 example_request
       = Inl (OtherError ''dial tcp: connection refused'')"
    using XDo_prefers_context_error [OF fails, of "\<lparr>done_from = None\<rparr>"]
    by (simp add: ctx_Err_def)
  ultimately show ?thesis by simp
qed


section \<open>Claims on URL resolution\<close>

text \<open>
  Claim C6 says that the resolved URL carries the per-call query first and the client's
  base query behind it as query parameters, joined by \<open>&\<close> only when both are
  non-empty, with \<open>?\<close> inserted only when the URL has no query component yet.
  \<open>resolveURL\<close> appends the base query to the text of \<open>u.String()\<close> and chooses
  between \<open>?\<close> and \<open>&\<close> by \<open>u.RawQuery\<close> alone. It misses what \<open>u.String()\<close> writes
  besides the raw query: on a URL with a fragment the base query lands behind the
  fragment, with \<open>&\<close> or with a \<open>?\<close> of its own, and on a URL whose query mark is
  forced (\<open>http://h/p?\<close>) a second \<open>?\<close> is inserted.
\<close>

theorem resolveURL_fragment_and_forced_query:
  "snd (resolveURL example_client (example_url\<lparr>EscapedFragment := ''frag''\<rparr>) [[(''b'', [''2''])]])
     = ''http://h/p?b=2#frag&a=1''
   \<and> snd (resolveURL example_client (example_url\<lparr>EscapedFragment := ''frag''\<rparr>) [])
     = ''http://h/p#frag?a=1''
   \<and> snd (resolveURL example_client (example_url\<lparr>ForceQuery := True\<rparr>) [])
     = ''http://h/p??a=1''"
proof -
  have bq: "Values_Encode [(''a'', [''1''])] = ''a=1''"
    by code_simp
  have cq: "Values_Encode (collect_queries [] [[(''b'', [''2''])]]) = ''b=2''"
    by code_simp
  have cq0: "Values_Encode (collect_queries [] []) = []"
    by code_simp
  show ?thesis
    by (simp add: resolveURL_def Let_def URL_String_def example_client_def example_url_def
        bq cq cq0 del: collect_queries.simps)
qed

text \<open>
  On the other URLs the code does what the claim says. For every URL the result is the
  text of the URL with the per-call query as its raw query, followed by the base query
  behind \<open>?\<close> or \<open>&\<close>; for a URL without a forced query mark and without a fragment
  this is the front, \<open>?\<close>, the per-call query, \<open>&\<close> if both are non-empty, and the base
  query.
\<close>

lemma resolveURL_plain_url:
  "snd (resolveURL c u queries)
     = URL_String (u\<lparr>RawQuery := Values_Encode (collect_queries [] queries)\<rparr>)
       @ (if Values_Encode (BaseQuery c) = [] then []
          else (if Values_Encode (collect_queries [] queries) = [] then ''?'' else ''&'')
               @ Values_Encode (BaseQuery c))
   \<and> (\<not> ForceQuery u \<and> EscapedFragment u = [] \<longrightarrow>
        snd (resolveURL c u queries)
          = Front u
            @ (if Values_Encode (collect_queries [] queries) = [] \<and> Values_Encode (BaseQuery c) = []
               then []
               else ''?'' @ Values_Encode (collect_queries [] queries)
                    @ (if Values_Encode (collect_queries [] queries) \<noteq> []
                          \<and> Values_Encode (BaseQuery c) \<noteq> [] then ''&'' else [])
                    @ Values_Encode (BaseQuery c)))"
  by (simp add: resolveURL_def Let_def URL_String_def)

text \<open>
  The spec's instance, base query \<open>a=1\<close> and call query \<open>b=2\<close> on \<open>http://h/p\<close>;
  the same with the key \<open>a\<close> in both queries; with no call query; and with no base
  query.
\<close>

lemma resolveURL_plain_url_example:
  "snd (resolveURL example_client example_url [[(''b'', [''2''])]]) = ''http://h/p?b=2&a=1''
   \<and> snd (resolveURL example_client example_url [[(''a'', [''2''])]]) = ''http://h/p?a=2&a=1''
   \<and> snd (resolveURL example_client example_url []) = ''http://h/p?a=1''
   \<and> snd (resolveURL (example_client\<lparr>BaseQuery := []\<rparr>) example_url [[(''b'', [''2''])]])
       = ''http://h/p?b=2''"
proof -
  have plain: "\<not> ForceQuery example_url \<and> EscapedFragment example_url = []"
    by (simp add: example_url_def)
  have front: "Front example_url = ''http://h/p''"
    by (simp add: example_url_def)
  have bq: "Values_Encode (BaseQuery example_client) = ''a=1''"
    unfolding example_client_def by code_simp
  have cq: "Values_Encode (collect_queries [] [[(''b'', [''2''])]]) = ''b=2''"
    by code_simp
  have cq': "Values_Encode (collect_queries [] [[(''a'', [''2''])]]) = ''a=2''"
    by code_simp
  have cq0: "Values_Encode (collect_queries [] []) = []"
    by code_simp
  note closed_form = resolveURL_plain_url [THEN conjunct2, THEN mp, OF plain]
  show ?thesis
    by (simp add: closed_form front bq cq cq' cq0 Values_Encode_Nil del: collect_queries.simps)
qed

text \<open>
  Claim C9 says that of a per-call query only the first value of each key reaches the
  resolved URL, and that the keys are emitted in sorted order. For a query with
  distinct keys the raw query written to the URL is one pair per key, the key with the
  value \<open>Get\<close> returns for it, over the keys in sorted order; \<open>Get\<close> and \<open>Delete\<close>
  write exactly this for the flattened query.
\<close>

theorem resolveURL_first_values_sorted:
  "(distinct (map fst query) \<longrightarrow>
      (let emitted = join_amp (map (\<lambda>k. QueryEscape k @ ''='' @ QueryEscape (Values_Get query k))
                       (sort (map fst query)))
       in RawQuery (fst (resolveURL c u [query])) = emitted
          \<and> snd (resolveURL c u [query])
              = URL_String (u\<lparr>RawQuery := emitted\<rparr>)
                @ (if Values_Encode (BaseQuery c) = [] then []
                   else (if emitted = [] then ''?'' else ''&'') @ Values_Encode (BaseQuery c))))
   \<and> (toValues sprintf d = Inr vals \<longrightarrow>
      RawQuery (fst (Get sprintf newreq c ctx now u d header))
        = join_amp (map (\<lambda>k. QueryEscape k @ ''='' @ QueryEscape (Values_Get vals k))
            (sort (map fst vals)))
      \<and> RawQuery (fst (Delete sprintf newreq c ctx now u d header))
        = join_amp (map (\<lambda>k. QueryEscape k @ ''='' @ QueryEscape (Values_Get vals k))
            (sort (map fst vals))))"
proof -
  have enc: "Values_Encode (collect_queries [] [query])
        = join_amp (map (\<lambda>k. QueryEscape k @ ''='' @ QueryEscape (Values_Get query k))
            (sort (map fst query)))" if d: "distinct (map fst query)" for query
  proof -
    have "Values_Encode (collect_queries [] [query])
        = Values_Encode (map (\<lambda>k. (k, [Values_Get query k])) (map fst query))"
      by (simp only: collect_one_query [OF d])
    also have "\<dots> = join_amp (map (\<lambda>k. QueryEscape k @ ''='' @ QueryEscape (Values_Get query k))
            (sort (map fst query)))"
      by (rule Values_Encode_singletons)
    finally show ?thesis .
  qed
  have one: "RawQuery (fst (resolveURL c u [query]))
        = join_amp (map (\<lambda>k. QueryEscape k @ ''='' @ QueryEscape (Values_Get query k))
            (sort (map fst query)))" if d: "distinct (map fst query)" for query
    using enc [OF d] by (simp add: resolveURL_def Let_def del: collect_queries.simps)
  have str: "snd (resolveURL c u [query])
        = URL_String (u\<lparr>RawQuery :=
            join_amp (map (\<lambda>k. QueryEscape k @ ''='' @ QueryEscape (Values_Get query k))
              (sort (map fst query)))\<rparr>)
          @ (if Values_Encode (BaseQuery c) = [] then []
             else (if join_amp (map (\<lambda>k. QueryEscape k @ ''='' @ QueryEscape (Values_Get query k))
                         (sort (map fst query))) = [] then ''?'' else ''&'')
                  @ Values_Encode (BaseQuery c))"
    if d: "distinct (map fst query)"
    using enc [OF d] by (simp add: resolveURL_def Let_def del: collect_queries.simps)
  have verbs: "fst (Get sprintf newreq c ctx now u d header) = fst (resolveURL c u [vals])
      \<and> fst (Delete sprintf newreq c ctx now u d header) = fst (resolveURL c u [vals])"
    if "toValues sprintf d = Inr vals"
    using that by (simp add: Get_def Delete_def split: prod.splits)
  have two: "RawQuery (fst (Get sprintf newreq c ctx now u d header))
        = join_amp (map (\<lambda>k. QueryEscape k @ ''='' @ QueryEscape (Values_Get vals k))
            (sort (map fst vals)))
      \<and> RawQuery (fst (Delete sprintf newreq c ctx now u d header))
        = join_amp (map (\<lambda>k. QueryEscape k @ ''='' @ QueryEscape (Values_Get vals k))
            (sort (map fst vals)))" if t: "toValues sprintf d = Inr vals"
    using verbs [OF t] one [OF toValues_distinct [OF t]] by simp
  show ?thesis
    unfolding Let_def using one [of query] str two by blast
qed

text \<open>
  Claim C9 at an instance: the key \<open>tags\<close> with the two values \<open>x\<close> and \<open>y\<close>,
  listed before the key \<open>id\<close>, contributes \<open>tags=x\<close> behind \<open>id=7\<close>.
\<close>

theorem resolveURL_first_values_sorted_witness:
  "resolveURL example_client example_url [[(''tags'', [''x'', ''y'']), (''id'', [''7''])]]
     = (example_url\<lparr>RawQuery := ''id=7&tags=x''\<rparr>, ''http://h/p?id=7&tags=x&a=1'')
   \<and> RawQuery (fst (Get Sprintf_noverb accept_all example_client \<lparr>done_from = None\<rparr> 5 example_url
        (Marshals (JObject [(''tags'', JArray [JString ''x'', JString ''y'']), (''id'', JNumber ''7'')]))
        [])) = ''id=7&tags=x''"
proof -
  let ?q = "[(''tags'', [''x'', ''y'']), (''id'', [''7''])]"
  have d: "distinct (map fst ?q)"
    by simp
  have flat: "toValues Sprintf_noverb
      (Marshals (JObject [(''tags'', JArray [JString ''x'', JString ''y'']), (''id'', JNumber ''7'')]))
      = Inr ?q"
    by (simp add: toValues_def)
  have enc: "join_amp (map (\<lambda>k. QueryEscape k @ ''='' @ QueryEscape (Values_Get ?q k))
          (sort (map fst ?q))) = ''id=7&tags=x''"
    by code_simp
  have bq: "Values_Encode (BaseQuery example_client) = ''a=1''"
    unfolding example_client_def by code_simp
  note inst = resolveURL_first_values_sorted
    [where query = ?q and c = example_client and u = example_url and sprintf = Sprintf_noverb
       and vals = ?q and newreq = accept_all and ctx = "\<lparr>done_from = None\<rparr>" and now = 5
       and header = "[]"]
  have "RawQuery (fst (resolveURL example_client example_url [?q])) = ''id=7&tags=x''
      \<and> snd (resolveURL example_client example_url [?q]) = ''http://h/p?id=7&tags=x&a=1''"
    using inst [THEN conjunct1, THEN mp, OF d, unfolded Let_def enc bq]
    by (simp add: URL_String_def example_url_def)
  moreover have "fst (resolveURL example_client example_url [?q])
      = example_url\<lparr>RawQuery := RawQuery (fst (resolveURL example_client example_url [?q]))\<rparr>"
    by (simp add: resolveURL_def Let_def)
  ultimately have whole: "resolveURL example_client example_url [?q]
      = (example_url\<lparr>RawQuery := ''id=7&tags=x''\<rparr>, ''http://h/p?id=7&tags=x&a=1'')"
    by (metis prod.collapse)
  have "RawQuery (fst (Get Sprintf_noverb accept_all example_client \<lparr>done_from = None\<rparr> 5
        example_url
        (Marshals (JObject [(''tags'', JArray [JString ''x'', JString ''y'']), (''id'', JNumber ''7'')]))
        [])) = ''id=7&tags=x''"
    using inst [THEN conjunct2, THEN mp, OF flat, unfolded enc] by simp
  with whole show ?thesis by simp
qed

text \<open>
  Claim C10 says that \<open>resolveURL\<close> overwrites the \<open>RawQuery\<close> of the URL it is
  given: the URL it leaves behind holds the encoded per-call query whatever it held
  before, so \<open>Get\<close> and \<open>Delete\<close> replace a query that was there, and \<open>Post\<close> and
  \<open>Put\<close>, which pass no query, leave the URL with an empty \<open>RawQuery\<close>. (A verb whose
  \<open>toValues\<close> fails returns before \<open>resolveURL\<close> and leaves the URL alone.)
\<close>

theorem resolveURL_overwrites_RawQuery:
  "RawQuery (fst (resolveURL c u queries)) = Values_Encode (collect_queries [] queries)
   \<and> resolveURL c (u\<lparr>RawQuery := old\<rparr>) queries = resolveURL c u queries
   \<and> fst (resolveURL c u []) = u\<lparr>RawQuery := []\<rparr>
   \<and> fst (Post sprintf newreq c ctx now u body header)
       = (case toValues sprintf body of Inl err \<Rightarrow> u | Inr values \<Rightarrow> u\<lparr>RawQuery := []\<rparr>)
   \<and> fst (Put sprintf newreq c ctx now u body header)
       = (case toValues sprintf body of Inl err \<Rightarrow> u | Inr values \<Rightarrow> u\<lparr>RawQuery := []\<rparr>)
   \<and> fst (Get sprintf newreq c ctx now u query header)
       = (case toValues sprintf query of
            Inl err \<Rightarrow> u
          | Inr values \<Rightarrow> u\<lparr>RawQuery := Values_Encode (collect_queries [] [values])\<rparr>)
   \<and> fst (Delete sprintf newreq c ctx now u query header)
       = (case toValues sprintf query of
            Inl err \<Rightarrow> u
          | Inr values \<Rightarrow> u\<lparr>RawQuery := Values_Encode (collect_queries [] [values])\<rparr>)"
  by (simp add: resolveURL_def Let_def Post_def Put_def Get_def Delete_def Values_Encode_Nil
      split: sum.splits prod.splits)

text \<open>
  Claim C10 at an instance: the query \<open>old=1\<close> on the URL is replaced by the call's
  \<open>b=2\<close> in \<open>resolveURL\<close>, and \<open>Post\<close> leaves the URL without a query.
\<close>

theorem resolveURL_overwrites_RawQuery_witness:
  "resolveURL example_client (example_url\<lparr>RawQuery := ''old=1''\<rparr>) [[(''b'', [''2''])]]
     = (example_url\<lparr>RawQuery := ''b=2''\<rparr>, ''http://h/p?b=2&a=1'')
   \<and> fst (Post Sprintf_noverb accept_all example_client \<lparr>done_from = None\<rparr> 5
          (example_url\<lparr>RawQuery := ''old=1''\<rparr>) (Marshals (JObject [(''b'', JNumber ''2'')])) [])
     = example_url\<lparr>RawQuery := []\<rparr>"
proof -
  have cq: "Values_Encode (collect_queries [] [[(''b'', [''2''])]]) = ''b=2''"
    by code_simp
  have bq: "Values_Encode [(''a'', [''1''])] = ''a=1''"
    by code_simp
  have flat: "toValues Sprintf_noverb (Marshals (JObject [(''b'', JNumber ''2'')])) = Inr [(''b'', [''2''])]"
    by (simp add: toValues_def)
  note inst = resolveURL_overwrites_RawQuery
    [of example_client example_url "[[(''b'', [''2''])]]" "''old=1''" Sprintf_noverb accept_all
        "\<lparr>done_from = None\<rparr>" 5 "(Marshals (JObject [(''b'', JNumber ''2'')]))" "[]"]
  have same: "resolveURL example_client (example_url\<lparr>RawQuery := ''old=1''\<rparr>) [[(''b'', [''2''])]]
      = resolveURL example_client example_url [[(''b'', [''2''])]]"
    using inst by blast
  have "resolveURL example_client example_url [[(''b'', [''2''])]]
      = (example_url\<lparr>RawQuery := ''b=2''\<rparr>, ''http://h/p?b=2&a=1'')"
    by (simp add: resolveURL_def Let_def cq bq example_client_def URL_String_def example_url_def
        del: collect_queries.simps)
  with same have one: "resolveURL example_client (example_url\<lparr>RawQuery := ''old=1''\<rparr>) [[(''b'', [''2''])]]
     = (example_url\<lparr>RawQuery := ''b=2''\<rparr>, ''http://h/p?b=2&a=1'')"
    by simp
  have "fst (Post Sprintf_noverb accept_all example_client \<lparr>done_from = None\<rparr> 5
          (example_url\<lparr>RawQuery := ''old=1''\<rparr>) (Marshals (JObject [(''b'', JNumber ''2'')])) [])
     = example_url\<lparr>RawQuery := []\<rparr>"
    using resolveURL_overwrites_RawQuery
    [of example_client "example_url\<lparr>RawQuery := ''old=1''\<rparr>" "[]" "[]" Sprintf_noverb accept_all
        "\<lparr>done_from = None\<rparr>" 5 "(Marshals (JObject [(''b'', JNumber ''2'')]))" "[]"]
    by (simp add: flat)
  with one show ?thesis by simp
qed

end
